theory Spec2Isabelle
  imports Complex_Main
begin

section \<open>Data model (monitor/models.py)\<close>

text \<open>
  Python strings are modelled as \<^typ>\<open>string\<close>; a character stands for the code point
  with the same number (0..255).  Python floats are modelled as \<^typ>\<open>real\<close>: the
  code only compares confidences with \<open>>=\<close> and \<open><\<close>, and rounding of decimal
  literals to binary floats is abstracted away.  The \<open>timestamp\<close> field of
  \<open>InterventionDecision\<close> (the wall clock at construction) is not modelled.  A decoded
  JSON document is a \<open>json\<close> value, an object being the association list of its
  members.
\<close>

datatype json =
    JNull | JBool bool | JNum real | JStr string | JArr "json list" | JObj "(string \<times> json) list"

record ClaudeHistoryEvent =
  display :: string
  timestamp :: real
  project :: string
  session_id :: string
  pasted_contents :: "(string \<times> json) list option"

record TaskContext =
  tc_user_instruction :: string
  tc_recent_events :: "ClaudeHistoryEvent list"
  tc_current_todos :: "string list"
  tc_completed_todos :: "string list"

record AnalysisResult =
  is_on_task :: bool
  confidence :: real
  reasoning :: string
  detected_issues :: "string list"
  recommended_action :: "string option"

datatype severity = Low | Medium | High | Critical

record InterventionDecision =
  should_intervene :: bool
  severity :: severity
  intervention_message :: string
  analysis :: AnalysisResult

section \<open>Python string helpers\<close>

text \<open>\<open>sep.join(parts)\<close>.\<close>

fun py_join :: "string \<Rightarrow> string list \<Rightarrow> string" where
  "py_join sep [] = []"
| "py_join sep [x] = x"
| "py_join sep (x # y # ys) = x @ sep @ py_join sep (y # ys)"

text \<open>
  \<open>str.isspace\<close> on the code points 0..255: tab, line feed, vertical tab, form feed,
  carriage return, the separators 0x1C..0x1F, space, 0x85 and 0xA0.
\<close>

definition py_isspace :: "char \<Rightarrow> bool" where
  "py_isspace c =
     (let n = (of_char c :: nat)
      in (9 \<le> n \<and> n \<le> 13) \<or> (28 \<le> n \<and> n \<le> 32) \<or> n = 133 \<or> n = 160)"

text \<open>\<open>s.strip()\<close>.\<close>

definition py_strip :: "string \<Rightarrow> string" where
  "py_strip s = rev (dropWhile py_isspace (rev (dropWhile py_isspace s)))"

text \<open>
  \<open>str.lower\<close> on the code points 0..255: A..Z and the Latin-1 capitals
  0xC0..0xDE (without the multiplication sign 0xD7) move up by 32.
\<close>

definition py_lower_char :: "char \<Rightarrow> char" where
  "py_lower_char c =
     (let n = (of_char c :: nat)
      in if (65 \<le> n \<and> n \<le> 90) \<or> (192 \<le> n \<and> n \<le> 222 \<and> n \<noteq> 215)
         then char_of (n + 32) else c)"

definition py_lower :: "string \<Rightarrow> string" where
  "py_lower s = map py_lower_char s"

text \<open>\<open>s.startswith(p)\<close>.\<close>

definition py_startswith :: "string \<Rightarrow> string \<Rightarrow> bool" where
  "py_startswith p s = (take (length p) s = p)"

text \<open>\<open>p in s\<close> for strings: \<open>p\<close> occurs in \<open>s\<close> as a contiguous substring.\<close>

fun py_in :: "string \<Rightarrow> string \<Rightarrow> bool" where
  "py_in p [] = (p = [])"
| "py_in p (c # cs) = (py_startswith p (c # cs) \<or> py_in p cs)"

text \<open>
  \<open>s.split(sep)\<close> for a non-empty separator: the pieces between the non-overlapping
  occurrences of \<open>sep\<close>, found left to right.  \<open>split_from sep k cur s\<close> scans \<open>s\<close>;
  \<open>cur\<close> is the current piece (reversed) and \<open>k\<close> counts the characters of a
  separator occurrence that are still to be skipped.
\<close>

fun split_from :: "string \<Rightarrow> nat \<Rightarrow> string \<Rightarrow> string \<Rightarrow> string list" where
  "split_from sep k cur [] = [rev cur]"
| "split_from sep (Suc k) cur (c # cs) = split_from sep k cur cs"
| "split_from sep 0 cur (c # cs) =
     (if py_startswith sep (c # cs)
      then rev cur # split_from sep (length sep - 1) [] cs
      else split_from sep 0 (c # cur) cs)"

definition py_split :: "string \<Rightarrow> string \<Rightarrow> string list" where
  "py_split sep s = split_from sep 0 [] s"

section \<open>Regular expressions (the fragment of \<open>re\<close> used by the question detector)\<close>

text \<open>
  The patterns of \<open>QuestionDetector\<close> are compiled with \<open>re.IGNORECASE | re.MULTILINE\<close>
  and are built from literal text, \<open>^\<close>, \<open>$\<close>, \<open>\b\<close>, \<open>.*\<close>, concatenation and
  alternation.  \<open>rx_ends t r i\<close> lists the positions at which a match of \<open>r\<close> that
  starts at position \<open>i\<close> of the text \<open>t\<close> can end; \<open>pattern.search(t)\<close> succeeds
  when some start position has a match.
\<close>

datatype rx = Lit string | Bol | Eol | WordB | DotStar | Seq "rx list" | Alt "rx list"

text \<open>\<open>\w\<close> on the code points 0..255 (\<open>str.isalnum\<close> or the underscore).\<close>

definition is_word_char :: "char \<Rightarrow> bool" where
  "is_word_char c =
     (let n = (of_char c :: nat)
      in (48 \<le> n \<and> n \<le> 57) \<or> (65 \<le> n \<and> n \<le> 90) \<or> n = 95 \<or> (97 \<le> n \<and> n \<le> 122)
         \<or> n = 170 \<or> n = 178 \<or> n = 179 \<or> n = 181 \<or> n = 185 \<or> n = 186
         \<or> (188 \<le> n \<and> n \<le> 190) \<or> (192 \<le> n \<and> n \<le> 214)
         \<or> (216 \<le> n \<and> n \<le> 246) \<or> (248 \<le> n \<and> n \<le> 255))"

text \<open>Is there a word character at index \<open>j\<close> of \<open>t\<close> (no: outside the text)?\<close>

definition word_at :: "string \<Rightarrow> int \<Rightarrow> bool" where
  "word_at t j = (0 \<le> j \<and> j < int (length t) \<and> is_word_char (t ! nat j))"

text \<open>A literal matches a piece of text of the same length, letters compared without case.\<close>

definition lit_matches :: "string \<Rightarrow> string \<Rightarrow> bool" where
  "lit_matches p s = (length p \<le> length s \<and> py_lower (take (length p) s) = py_lower p)"

fun rx_ends :: "string \<Rightarrow> rx \<Rightarrow> nat \<Rightarrow> nat list" where
  "rx_ends t (Lit p) i = (if lit_matches p (drop i t) then [i + length p] else [])"
| "rx_ends t Bol i = (if i = 0 \<or> (i \<le> length t \<and> t ! (i - 1) = CHR 0x0A) then [i] else [])"
| "rx_ends t Eol i = (if i = length t \<or> (i < length t \<and> t ! i = CHR 0x0A) then [i] else [])"
| "rx_ends t WordB i = (if word_at t (int i - 1) \<noteq> word_at t (int i) then [i] else [])"
| "rx_ends t DotStar i =
     [i ..< Suc (i + length (takeWhile (\<lambda>c. c \<noteq> CHR 0x0A) (drop i t)))]"
| "rx_ends t (Seq []) i = [i]"
| "rx_ends t (Seq (r # rs)) i = concat (map (rx_ends t (Seq rs)) (rx_ends t r i))"
| "rx_ends t (Alt rs) i = concat (map (\<lambda>r. rx_ends t r i) rs)"

definition rx_search :: "rx \<Rightarrow> string \<Rightarrow> bool" where
  "rx_search r t = list_ex (\<lambda>i. rx_ends t r i \<noteq> []) [0 ..< Suc (length t)]"

section \<open>QuestionDetector (monitor/question_detector.py)\<close>

definition QUESTION_PATTERNS :: "rx list" where
  "QUESTION_PATTERNS =
     [ Seq [Lit ''?'', Eol],
       Seq [Bol, Lit ''Should I'', WordB],
       Seq [Bol, Lit ''Which'', WordB],
       Seq [Bol, Lit ''Do you want''],
       Seq [Bol, Lit ''Would you like''],
       Seq [Bol, Lit ''Can I'', WordB],
       Seq [Bol, Lit ''May I'', WordB],
       Seq [Bol, Lit ''Could you'', WordB],
       Seq [Bol, Lit ''Would you'', WordB],
       Seq [Bol, Lit ''Please '',
            Alt [Lit ''confirm'', Lit ''choose'', Lit ''select'', Lit ''specify'', Lit ''clarify'']],
       Seq [WordB, Lit ''confirm?''],
       Seq [WordB, Lit ''choose'', WordB, DotStar, Lit ''?''],
       Seq [WordB, Lit ''prefer'', WordB, DotStar, Lit ''?''],
       Seq [WordB, Lit ''or'', WordB, DotStar, Lit ''?''] ]"

definition RHETORICAL_PATTERNS :: "rx list" where
  "RHETORICAL_PATTERNS =
     [ Seq [Bol, Lit ''What '',
            Alt [Lit ''is'', Lit ''are'', Lit ''was'', Lit ''were'', Lit ''does'', Lit ''did'']],
       Seq [Bol, Lit ''How '', Alt [Lit ''does'', Lit ''did'', Lit ''can'', Lit ''should''],
            Lit '' '', Alt [Lit ''this'', Lit ''that'', Lit ''it'']],
       Seq [Bol, Lit ''Why '', Alt [Lit ''is'', Lit ''are'', Lit ''does'', Lit ''did'']],
       Seq [Bol, Lit ''Let me '',
            Alt [Lit ''check'', Lit ''see'', Lit ''verify'', Lit ''analyze'']] ]"

text \<open>\<open>QuestionDetector.is_question\<close>.\<close>

definition is_question :: "string \<Rightarrow> bool" where
  "is_question text =
     (if text = [] \<or> length (py_strip text) = 0 then False
      else if list_ex (\<lambda>pattern. rx_search pattern text) RHETORICAL_PATTERNS then False
      else if list_ex (\<lambda>pattern. rx_search pattern text) QUESTION_PATTERNS then True
      else False)"

text \<open>\<open>QuestionDetector.extract_question\<close>.\<close>

definition extract_question :: "string \<Rightarrow> string option" where
  "extract_question text =
     (if \<not> is_question text then None
      else
        let lines = py_split [CHR 0x0A] text;
            questions = filter is_question (map py_strip lines)
        in if questions = []
           then (if CHR ''?'' \<in> set text then Some (py_strip text) else None)
           else Some (hd questions))"

section \<open>TaskAnalyzer (monitor/analyzer.py): severity and intervention decision\<close>

text \<open>\<open>TaskAnalyzer._determine_severity\<close>; it reads only \<open>analysis.confidence\<close>.\<close>

definition determine_severity :: "AnalysisResult \<Rightarrow> severity" where
  "determine_severity a =
     (if confidence a \<ge> 0.9 then Critical
      else if confidence a \<ge> 0.8 then High
      else if confidence a \<ge> 0.7 then Medium
      else Low)"

text \<open>\<open>TaskAnalyzer._build_intervention_message\<close>.\<close>

definition build_intervention_message :: "AnalysisResult \<Rightarrow> string" where
  "build_intervention_message a =
     py_join [CHR 0x0A]
       ([''CLAUDE CODE APPEARS TO BE OFF-TASK'', [], ''Reasoning: '' @ reasoning a, []]
        @ (if detected_issues a \<noteq> []
           then [''Detected Issues:''] @ map (\<lambda>issue. ''  - '' @ issue) (detected_issues a) @ [[]]
           else [])
        @ (case recommended_action a of
             None \<Rightarrow> []
           | Some act \<Rightarrow>
               if act \<noteq> [] then [''Recommended Action:'', ''  '' @ act, []] else [])
        @ [''Consider redirecting Claude Code back to the original task.''])"

text \<open>
  The tail of \<open>TaskAnalyzer._trigger_analysis\<close> (from \<open>should_intervene = ...\<close> on):
  given the classifier's judgment and the \<open>force\<close> flag, the decision handed to the
  \<open>on_intervention\<close> callback, or \<open>None\<close> when no decision is built.
\<close>

definition evaluate :: "real \<Rightarrow> AnalysisResult \<Rightarrow> bool \<Rightarrow> InterventionDecision option" where
  "evaluate intervention_threshold a force =
     (let should = ((\<not> is_on_task a \<and> confidence a \<ge> intervention_threshold) \<or> force)
      in if should
         then Some \<lparr> should_intervene = True,
                     severity = determine_severity a,
                     intervention_message = build_intervention_message a,
                     analysis = a \<rparr>
         else None)"

section \<open>Exceptions and the external libraries\<close>

text \<open>
  An exception is a value: its class and its text \<open>str(e)\<close> (for a \<open>TypeError\<close>
  of \<open>**\<close> the text is shortened to its fixed part).  The classes that
  \<open>except (json.JSONDecodeError, ValueError)\<close> catches are the subclasses of
  \<open>ValueError\<close>, among them \<open>json.JSONDecodeError\<close>, \<open>UnicodeDecodeError\<close>
  and pydantic's \<open>ValidationError\<close>.
\<close>

datatype exn_class =
    JSONDecodeError | ValidationError | UnicodeDecodeError | ValueError | TypeError
  | AttributeError | IndexError | OverflowError | OtherError

datatype exn = Exn exn_class string

fun is_ValueError :: "exn \<Rightarrow> bool" where
  "is_ValueError (Exn c msg) =
     (c = JSONDecodeError \<or> c = ValidationError \<or> c = UnicodeDecodeError \<or> c = ValueError)"

text \<open>
  The library functions the code calls are parameters of the model: \<open>json.loads\<close>,
  pydantic's conversion of a JSON value to each field type (\<open>None\<close>: the value is
  rejected), \<open>datetime.fromtimestamp\<close>, the text of a \<open>ValidationError\<close>, and the
  UTF-8 decoder of a file opened in text mode (it raises \<open>UnicodeDecodeError\<close> on
  bytes that are not UTF-8).
\<close>

record pylib =
  json_loads :: "string \<Rightarrow> exn + json"
  as_str :: "json \<Rightarrow> string option"
  as_int :: "json \<Rightarrow> int option"
  as_float :: "json \<Rightarrow> real option"
  as_bool :: "json \<Rightarrow> bool option"
  as_str_list :: "json \<Rightarrow> string list option"
  as_dict :: "json \<Rightarrow> (string \<times> json) list option"
  fromtimestamp :: "real \<Rightarrow> exn + real"
  validation_error_str :: "(string \<times> json) list \<Rightarrow> string"
  decode_utf8 :: "string \<Rightarrow> exn + string"

text \<open>A required field, a field with a default, and an \<open>Optional[...]\<close> value.\<close>

definition required :: "(json \<Rightarrow> 'a option) \<Rightarrow> (string \<times> json) list \<Rightarrow> string \<Rightarrow> 'a option" where
  "required conv kv k = (case map_of kv k of None \<Rightarrow> None | Some j \<Rightarrow> conv j)"

definition defaulted :: "(json \<Rightarrow> 'a option) \<Rightarrow> 'a \<Rightarrow> (string \<times> json) list \<Rightarrow> string \<Rightarrow> 'a option" where
  "defaulted conv d kv k = (case map_of kv k of None \<Rightarrow> Some d | Some j \<Rightarrow> conv j)"

definition nullable :: "(json \<Rightarrow> 'a option) \<Rightarrow> json \<Rightarrow> 'a option option" where
  "nullable conv j = (case j of JNull \<Rightarrow> Some None | _ \<Rightarrow> map_option Some (conv j))"

text \<open>\<open>xs[i]\<close>, which raises \<open>IndexError\<close> out of range.\<close>

definition py_index :: "'a list \<Rightarrow> nat \<Rightarrow> exn + 'a" where
  "py_index xs i = (if i < length xs then Inr (xs ! i) else Inl (Exn IndexError ''list index out of range''))"

section \<open>Construction of the models (monitor/models.py)\<close>

text \<open>
  \<open>AnalysisResult(**data)\<close>: \<open>**\<close> needs a mapping (\<open>TypeError\<close> otherwise);
  \<open>is_on_task\<close>, \<open>confidence\<close> and \<open>reasoning\<close> are required, \<open>confidence\<close> is
  declared \<open>Field(ge=0.0, le=1.0)\<close>, and a value that fails validation raises
  \<open>ValidationError\<close>.
\<close>

definition in_unit_interval :: "real \<Rightarrow> real option" where
  "in_unit_interval c = (if 0 \<le> c \<and> c \<le> 1 then Some c else None)"

definition AnalysisResult_init :: "pylib \<Rightarrow> json \<Rightarrow> exn + AnalysisResult" where
  "AnalysisResult_init lib data =
     (case data of
        JObj kv \<Rightarrow>
          (case (required (as_bool lib) kv ''is_on_task'',
                 Option.bind (required (as_float lib) kv ''confidence'') in_unit_interval,
                 required (as_str lib) kv ''reasoning'',
                 defaulted (as_str_list lib) [] kv ''detected_issues'',
                 defaulted (nullable (as_str lib)) None kv ''recommended_action'') of
             (Some b, Some c, Some r, Some ds, Some ra) \<Rightarrow>
               Inr \<lparr> is_on_task = b, confidence = c, reasoning = r,
                     detected_issues = ds, recommended_action = ra \<rparr>
           | _ \<Rightarrow> Inl (Exn ValidationError (validation_error_str lib kv)))
      | _ \<Rightarrow> Inl (Exn TypeError ''argument after ** must be a mapping''))"

text \<open>
  \<open>ClaudeHistoryEvent(**data)\<close>: \<open>sessionId\<close> and \<open>pastedContents\<close> are aliases
  (\<open>populate_by_name\<close> also admits the field names); the validator of \<open>timestamp\<close>
  calls \<open>datetime.fromtimestamp(v / 1000.0)\<close>, and pydantic turns a \<open>ValueError\<close>
  raised there into a \<open>ValidationError\<close> and lets any other exception through.
\<close>

definition by_alias :: "(string \<times> json) list \<Rightarrow> string \<Rightarrow> string \<Rightarrow> json option" where
  "by_alias kv alias name = (case map_of kv alias of Some j \<Rightarrow> Some j | None \<Rightarrow> map_of kv name)"

definition ClaudeHistoryEvent_init :: "pylib \<Rightarrow> json \<Rightarrow> exn + ClaudeHistoryEvent" where
  "ClaudeHistoryEvent_init lib data =
     (case data of
        JObj kv \<Rightarrow>
          (case (required (as_str lib) kv ''display'',
                 required (as_int lib) kv ''timestamp'',
                 required (as_str lib) kv ''project'',
                 Option.bind (by_alias kv ''sessionId'' ''session_id'') (as_str lib),
                 (case by_alias kv ''pastedContents'' ''pasted_contents'' of
                    None \<Rightarrow> Some None
                  | Some j \<Rightarrow> nullable (as_dict lib) j)) of
             (Some d, Some v, Some p, Some sid, Some pc) \<Rightarrow>
               (case fromtimestamp lib (real_of_int v / 1000) of
                  Inr t \<Rightarrow>
                    Inr \<lparr> display = d, timestamp = t, project = p, session_id = sid,
                          pasted_contents = pc \<rparr>
                | Inl e \<Rightarrow>
                    if is_ValueError e
                    then Inl (Exn ValidationError (validation_error_str lib kv))
                    else Inl e)
           | _ \<Rightarrow> Inl (Exn ValidationError (validation_error_str lib kv)))
      | _ \<Rightarrow> Inl (Exn TypeError ''argument after ** must be a mapping''))"

section \<open>DevstralClient (monitor/llm_client.py)\<close>

fun exn_str :: "exn \<Rightarrow> string" where
  "exn_str (Exn c msg) = msg"

text \<open>The fail-open result built in the two \<open>except Exception\<close> handlers.\<close>

definition failed_analysis :: "string \<Rightarrow> exn \<Rightarrow> AnalysisResult" where
  "failed_analysis prefix e =
     \<lparr> is_on_task = True, confidence = 0.0, reasoning = prefix @ exn_str e,
       detected_issues = [], recommended_action = None \<rparr>"

text \<open>
  The body of the \<open>try\<close> of \<open>DevstralClient._parse_analysis_response\<close>: strip, take
  the text out of a Markdown fence, decode, construct.  \<open>content\<close> is \<open>None\<close> when
  the response carries no text (\<open>content.strip()\<close> raises \<open>AttributeError\<close>).
\<close>

definition fenced :: "string \<Rightarrow> string \<Rightarrow> exn + string" where
  "fenced opening content =
     (case py_index (py_split opening content) 1 of
        Inl e \<Rightarrow> Inl e
      | Inr rest \<Rightarrow> py_index (py_split ''```'' rest) 0)"

definition decode_analysis :: "pylib \<Rightarrow> string option \<Rightarrow> exn + AnalysisResult" where
  "decode_analysis lib content =
     (case content of
        None \<Rightarrow>
          Inl (Exn AttributeError
                 ([CHR 0x27] @ ''NoneType'' @ [CHR 0x27] @ '' object has no attribute ''
                  @ [CHR 0x27] @ ''strip'' @ [CHR 0x27]))
      | Some raw \<Rightarrow>
          let content1 = py_strip raw
          in case (if py_startswith ''```json'' content1 then fenced ''```json'' content1
                   else if py_startswith ''```'' content1 then fenced ''```'' content1
                   else Inr content1) of
               Inl e \<Rightarrow> Inl e
             | Inr content2 \<Rightarrow>
                 (case json_loads lib (py_strip content2) of
                    Inl e \<Rightarrow> Inl e
                  | Inr data \<Rightarrow> AnalysisResult_init lib data))"

text \<open>\<open>DevstralClient._parse_analysis_response\<close>.\<close>

definition parse_analysis_response :: "pylib \<Rightarrow> string option \<Rightarrow> AnalysisResult" where
  "parse_analysis_response lib content =
     (case decode_analysis lib content of
        Inr a \<Rightarrow> a
      | Inl e \<Rightarrow> failed_analysis ''Failed to parse response: '' e)"

text \<open>
  \<open>DevstralClient.analyze_task_adherence\<close>.  \<open>chat context activity\<close> stands for
  building the two prompts, the request to the model and the selection of
  \<open>response.choices[0].message.content\<close>: the text of the reply (\<open>None\<close> when it has
  none), or the exception raised on the way.
\<close>

definition analyze_task_adherence ::
  "pylib \<Rightarrow> (TaskContext \<Rightarrow> string \<Rightarrow> exn + string option) \<Rightarrow> TaskContext \<Rightarrow> string \<Rightarrow> AnalysisResult" where
  "analyze_task_adherence lib chat context current_activity =
     (case chat context current_activity of
        Inr content \<Rightarrow> parse_analysis_response lib content
      | Inl e \<Rightarrow> failed_analysis ''Analysis failed: '' e)"

section \<open>TaskAnalyzer: state, context buffer and trigger policy\<close>

text \<open>
  The fields of \<open>TaskAnalyzer\<close>.  \<open>recent_events\<close> is the
  \<open>deque(maxlen=context_window_size)\<close>, oldest event first; the window size is a
  natural number (\<open>deque\<close> refuses a negative \<open>maxlen\<close>).  The classifier
  \<open>llm_client.analyze_task_adherence\<close> is passed to the operations that call it.
\<close>

record TaskAnalyzer =
  context_window_size :: nat
  intervention_threshold :: real
  user_instruction :: "string option"
  current_todos :: "string list"
  completed_todos :: "string list"
  recent_events :: "ClaudeHistoryEvent list"
  event_count :: nat
  check_frequency :: nat

text \<open>\<open>TaskAnalyzer.__init__\<close>.\<close>

definition TaskAnalyzer_init :: "nat \<Rightarrow> real \<Rightarrow> TaskAnalyzer" where
  "TaskAnalyzer_init window_size threshold =
     \<lparr> context_window_size = window_size,
       intervention_threshold = threshold,
       user_instruction = None,
       current_todos = [],
       completed_todos = [],
       recent_events = [],
       event_count = 0,
       check_frequency = 3 \<rparr>"

text \<open>\<open>TaskAnalyzer.set_user_instruction\<close>.\<close>

definition set_user_instruction :: "TaskAnalyzer \<Rightarrow> string \<Rightarrow> TaskAnalyzer" where
  "set_user_instruction s instruction =
     s\<lparr> user_instruction := Some instruction, current_todos := [], completed_todos := [] \<rparr>"

text \<open>\<open>TaskAnalyzer.update_todos\<close>.\<close>

definition update_todos :: "TaskAnalyzer \<Rightarrow> string list option \<Rightarrow> string list option \<Rightarrow> TaskAnalyzer" where
  "update_todos s current completed =
     (let s1 = (case current of None \<Rightarrow> s | Some c \<Rightarrow> s\<lparr> current_todos := c \<rparr>)
      in case completed of None \<Rightarrow> s1 | Some c \<Rightarrow> s1\<lparr> completed_todos := c \<rparr>)"

text \<open>\<open>not x\<close> for an optional string: \<open>x\<close> is \<open>None\<close> or the empty string.\<close>

definition py_not :: "string option \<Rightarrow> bool" where
  "py_not u = (case u of None \<Rightarrow> True | Some t \<Rightarrow> t = [])"

text \<open>
  \<open>deque.append\<close> on a deque with \<open>maxlen\<close>: the item is added on the right, and
  when the deque is then longer than \<open>maxlen\<close> its leftmost item is dropped.
\<close>

definition deque_append :: "nat \<Rightarrow> 'a list \<Rightarrow> 'a \<Rightarrow> 'a list" where
  "deque_append maxlen xs x = (let ys = xs @ [x] in if length ys > maxlen then tl ys else ys)"

text \<open>\<open>TaskAnalyzer._is_suspicious_activity\<close>.\<close>

definition suspicious_patterns :: "string list" where
  "suspicious_patterns =
     [ ''i'' @ [CHR 0x27] @ ''ll monitor'',
       ''i will monitor'',
       ''i'' @ [CHR 0x27] @ ''ll check'',
       ''i will check'',
       ''later on'',
       ''in the future'',
       ''i'' @ [CHR 0x27] @ ''ll watch'',
       ''i will watch'',
       ''i'' @ [CHR 0x27] @ ''ll track'',
       ''i will track'',
       ''continuously'',
       ''ongoing'' ]"

definition is_suspicious_activity :: "string \<Rightarrow> bool" where
  "is_suspicious_activity activity =
     (let activity_lower = py_lower activity
      in list_ex (\<lambda>pattern. py_in pattern activity_lower) suspicious_patterns)"

text \<open>
  One invocation of the classifier by \<open>_trigger_analysis\<close>: the context snapshot and
  activity it was given, the \<open>force\<close> flag, its judgment, and the decision built from
  it (if any), which is what the \<open>on_intervention\<close> callback receives.
\<close>

record analysis_call =
  call_context :: TaskContext
  call_activity :: string
  call_force :: bool
  call_analysis :: AnalysisResult
  call_decision :: "InterventionDecision option"

text \<open>\<open>TaskAnalyzer._trigger_analysis\<close>; \<open>None\<close>: it returned before calling the classifier.\<close>

definition trigger_analysis ::
  "(TaskContext \<Rightarrow> string \<Rightarrow> AnalysisResult) \<Rightarrow> TaskAnalyzer \<Rightarrow> string \<Rightarrow> bool \<Rightarrow> analysis_call option" where
  "trigger_analysis llm s current_activity force =
     (case user_instruction s of
        None \<Rightarrow> None
      | Some instruction \<Rightarrow>
          if instruction = [] then None
          else
            let context = \<lparr> tc_user_instruction = instruction,
                            tc_recent_events = recent_events s,
                            tc_current_todos = current_todos s,
                            tc_completed_todos = completed_todos s \<rparr>;
                a = llm context current_activity
            in Some \<lparr> call_context = context,
                      call_activity = current_activity,
                      call_force = force,
                      call_analysis = a,
                      call_decision = evaluate (intervention_threshold s) a force \<rparr>)"

text \<open>\<open>TaskAnalyzer.process_event\<close>: the new state and the classifier call it made, if any.\<close>

definition process_event ::
  "(TaskContext \<Rightarrow> string \<Rightarrow> AnalysisResult) \<Rightarrow> TaskAnalyzer \<Rightarrow> ClaudeHistoryEvent
     \<Rightarrow> TaskAnalyzer \<times> analysis_call option" where
  "process_event llm s event =
     (let s1 = s\<lparr> recent_events := deque_append (context_window_size s) (recent_events s) event,
                  event_count := event_count s + 1 \<rparr>;
          s2 = (if py_not (user_instruction s1)
                then s1\<lparr> user_instruction := Some (display event) \<rparr> else s1)
      in if is_suspicious_activity (display event)
         then (s2, trigger_analysis llm s2 (display event) True)
         else if event_count s2 mod check_frequency s2 = 0
         then (s2, trigger_analysis llm s2 (display event) False)
         else (s2, None))"

text \<open>
  The events of a run, processed in order: the final state and, for each event, the
  classifier call it caused.
\<close>

fun process_events ::
  "(TaskContext \<Rightarrow> string \<Rightarrow> AnalysisResult) \<Rightarrow> TaskAnalyzer \<Rightarrow> ClaudeHistoryEvent list
     \<Rightarrow> TaskAnalyzer \<times> analysis_call option list" where
  "process_events llm s [] = (s, [])"
| "process_events llm s (e # es) =
     (let (s1, c) = process_event llm s e;
          (s2, cs) = process_events llm s1 es
      in (s2, c # cs))"

section \<open>HistoryWatcher (monitor/watcher.py)\<close>

text \<open>
  The history file is \<open>None\<close> when it does not exist and otherwise its bytes; an offset
  counts bytes.  Reading in text mode decodes the bytes after the offset as UTF-8;
  \<open>readlines\<close> then cuts the text after each line ending and turns the endings
  \<open>\r\n\<close> and \<open>\r\<close> into \<open>\n\<close>.
\<close>

record HistoryWatcher =
  last_position :: nat

fun readlines_from :: "string \<Rightarrow> string \<Rightarrow> string list" where
  "readlines_from cur [] = (if cur = [] then [] else [rev cur])"
| "readlines_from cur (c # cs) =
     (if c = CHR 0x0A then rev (CHR 0x0A # cur) # readlines_from [] cs
      else if c = CHR 0x0D
      then (case cs of
              d # ds \<Rightarrow>
                if d = CHR 0x0A then rev (CHR 0x0A # cur) # readlines_from [] ds
                else rev (CHR 0x0A # cur) # readlines_from [] cs
            | [] \<Rightarrow> rev (CHR 0x0A # cur) # readlines_from [] cs)
      else readlines_from (c # cur) cs)"

definition readlines :: "string \<Rightarrow> string list" where
  "readlines s = readlines_from [] s"

text \<open>\<open>HistoryWatcher._initialize_position\<close>.\<close>

definition initialize_position :: "string option \<Rightarrow> HistoryWatcher" where
  "initialize_position file =
     (case file of None \<Rightarrow> \<lparr> last_position = 0 \<rparr>
      | Some content \<Rightarrow> \<lparr> last_position = length content \<rparr>)"

text \<open>
  The loop over \<open>new_lines\<close> of \<open>_read_new_entries\<close>: the events handed to
  \<open>on_new_event\<close>, in order, and the exception that left the loop, if one did.  The
  handler catches \<open>json.JSONDecodeError\<close> and \<open>ValueError\<close> only.  The callback
  itself is taken not to raise.
\<close>

fun parse_lines :: "pylib \<Rightarrow> string list \<Rightarrow> ClaudeHistoryEvent list \<times> exn option" where
  "parse_lines lib [] = ([], None)"
| "parse_lines lib (l # ls) =
     (let line = py_strip l
      in if line = [] then parse_lines lib ls
         else
           case (case json_loads lib line of
                   Inl e \<Rightarrow> Inl e
                 | Inr data \<Rightarrow> ClaudeHistoryEvent_init lib data) of
             Inr event \<Rightarrow> (let (evs, err) = parse_lines lib ls in (event # evs, err))
           | Inl e \<Rightarrow> if is_ValueError e then parse_lines lib ls else ([], Some e))"

text \<open>
  \<open>HistoryWatcher._read_new_entries\<close>.  \<open>f.readlines()\<close> stands outside the
  \<open>try\<close> and before the assignment to \<open>last_position\<close>: when the new bytes do not
  decode, \<open>UnicodeDecodeError\<close> leaves the method with the offset unchanged.  After
  \<open>seek\<close> to an offset beyond the end of the file nothing is read and \<open>tell\<close> gives
  that offset back.
\<close>

definition read_new_entries ::
  "pylib \<Rightarrow> string option \<Rightarrow> HistoryWatcher \<Rightarrow> HistoryWatcher \<times> ClaudeHistoryEvent list \<times> exn option" where
  "read_new_entries lib file w =
     (case file of
        None \<Rightarrow> (w, [], None)
      | Some content \<Rightarrow>
          (case decode_utf8 lib (drop (last_position w) content) of
             Inl e \<Rightarrow> (w, [], Some e)
           | Inr new_text \<Rightarrow>
               let new_lines = readlines new_text;
                   w1 = w\<lparr> last_position := max (last_position w) (length content) \<rparr>
               in (w1, parse_lines lib new_lines)))"

section \<open>TelegramRelay.ask_question (monitor/telegram_relay.py)\<close>

record TelegramRelay =
  chat_id :: "string option"
  waiting_for_answer :: bool
  current_question_id :: nat
  answer_queue :: "string list"

text \<open>
  \<open>TelegramRelay.ask_question\<close>.  \<open>arrival\<close> is the outcome of
  \<open>answer_queue.get(timeout=response_timeout)\<close>: the text the listener put into the
  queue within the timeout, or \<open>None\<close> when the wait ended with \<open>Empty\<close>.  Sending the
  question is fire-and-forget and has no effect on the result.
\<close>

definition ask_question :: "TelegramRelay \<Rightarrow> string option \<Rightarrow> TelegramRelay \<times> string option" where
  "ask_question relay arrival =
     (if py_not (chat_id relay) then (relay, None)
      else
        let relay1 = relay\<lparr> current_question_id := current_question_id relay + 1,
                            waiting_for_answer := True,
                            answer_queue := [] \<rparr>
        in (relay1\<lparr> waiting_for_answer := False \<rparr>, arrival))"

section \<open>Interventor._write_intervention_file (monitor/interventor.py)\<close>

text \<open>The text that \<open>_write_intervention_file\<close> puts into the intervention file.\<close>

definition write_intervention_file :: "InterventionDecision \<Rightarrow> string" where
  "write_intervention_file decision =
     py_join [CHR 0x0A]
       ([''STOP - Hawtcher Intervention Required'', [],
         ''Issue detected: '' @ reasoning (analysis decision), []]
        @ (if detected_issues (analysis decision) \<noteq> []
           then [''Problems:''] @ map (\<lambda>issue. ''- '' @ issue) (detected_issues (analysis decision)) @ [[]]
           else [])
        @ (case recommended_action (analysis decision) of
             Some act \<Rightarrow>
               if act \<noteq> [] then [''Action required: '' @ act]
               else [''Action required: Return to the original task immediately.'']
           | None \<Rightarrow> [''Action required: Return to the original task immediately.'']))"

section \<open>HawtcherApp._handle_question (hawtcher.py)\<close>

record AnswerAttempt =
  answer :: string
  answer_confidence :: real
  answer_reasoning :: string
  should_ask_user :: bool

text \<open>\<open>answer_attempt.answer or "Please clarify your question."\<close>.\<close>

definition answer_or_clarify :: "AnswerAttempt \<Rightarrow> string" where
  "answer_or_clarify attempt =
     (if answer attempt \<noteq> [] then answer attempt else ''Please clarify your question.'')"

text \<open>
  The outcome of \<open>_handle_question\<close>: the answer it returns, the decision it hands to
  \<open>_write_intervention_file\<close>, the text written to the intervention file, and the relay.
\<close>

record question_outcome =
  final_answer :: string
  sent_decision :: InterventionDecision
  written_text :: string
  relay_after :: "TelegramRelay option"

definition handle_question ::
  "TelegramRelay option \<Rightarrow> string option \<Rightarrow> string \<Rightarrow> AnswerAttempt \<Rightarrow> question_outcome" where
  "handle_question telegram_relay arrival question attempt =
     (let (ans, relay1) =
            (if should_ask_user attempt
             then (case telegram_relay of
                     Some relay \<Rightarrow>
                       (let (relay2, user_answer) = ask_question relay arrival
                        in case user_answer of
                             Some text \<Rightarrow>
                               if text \<noteq> [] then (text, Some relay2)
                               else (answer_or_clarify attempt, Some relay2)
                           | None \<Rightarrow> (answer_or_clarify attempt, Some relay2))
                   | None \<Rightarrow> (answer_or_clarify attempt, None))
             else (answer attempt, telegram_relay));
          decision = \<lparr> should_intervene = True,
                       severity = Low,
                       intervention_message = ''Answer to your question:'' @ [CHR 0x0A] @ ans,
                       analysis = \<lparr> is_on_task = True, confidence = 1.0,
                                    reasoning = ''Answering Claude Code'' @ [CHR 0x27] @ ''s question'',
                                    detected_issues = [], recommended_action = None \<rparr> \<rparr>
      in \<lparr> final_answer = ans,
           sent_decision = decision,
           written_text = write_intervention_file decision,
           relay_after = relay1 \<rparr>)"

section \<open>Example inputs\<close>

text \<open>
  A library instance for concrete runs: \<open>json.loads\<close> decodes the texts listed in
  \<open>docs\<close> to the documents given with them and rejects every other text; each
  conversion accepts the JSON values of its own type; \<open>fromtimestamp\<close> succeeds;
  the decoder takes the bytes of an ASCII file to the same characters.
\<close>

definition table_lib :: "(string \<times> json) list \<Rightarrow> pylib" where
  "table_lib docs =
     \<lparr> json_loads = (\<lambda>t. case map_of docs t of
                            Some j \<Rightarrow> Inr j
                          | None \<Rightarrow> Inl (Exn JSONDecodeError ''Expecting value'')),
       as_str = (\<lambda>j. case j of JStr t \<Rightarrow> Some t | _ \<Rightarrow> None),
       as_int = (\<lambda>j. case j of
                        JNum r \<Rightarrow> if r = of_int \<lfloor>r\<rfloor> then Some \<lfloor>r\<rfloor> else None
                      | _ \<Rightarrow> None),
       as_float = (\<lambda>j. case j of JNum r \<Rightarrow> Some r | _ \<Rightarrow> None),
       as_bool = (\<lambda>j. case j of JBool b \<Rightarrow> Some b | _ \<Rightarrow> None),
       as_str_list = (\<lambda>j. case j of
                             JArr xs \<Rightarrow> those (map (\<lambda>x. case x of JStr t \<Rightarrow> Some t | _ \<Rightarrow> None) xs)
                           | _ \<Rightarrow> None),
       as_dict = (\<lambda>j. case j of JObj kv \<Rightarrow> Some kv | _ \<Rightarrow> None),
       fromtimestamp = (\<lambda>t. Inr t),
       validation_error_str = (\<lambda>kv. ''validation error''),
       decode_utf8 = (\<lambda>bytes. Inr bytes) \<rparr>"

text \<open>A reply of the classifier whose confidence lies above 1, and its decoding.\<close>

definition overconfident_reply :: string where
  \<open>overconfident_reply = ''{"is_on_task": false, "confidence": 1.5, "reasoning": "x"}''\<close>

definition overconfident_doc :: json where
  "overconfident_doc =
     JObj [(''is_on_task'', JBool False), (''confidence'', JNum 1.5), (''reasoning'', JStr ''x'')]"

definition overconfident_lib :: pylib where
  "overconfident_lib = table_lib [(overconfident_reply, overconfident_doc)]"

text \<open>A model endpoint that answers every request with the given text.\<close>

definition replying :: "string \<Rightarrow> TaskContext \<Rightarrow> string \<Rightarrow> exn + string option" where
  "replying text context activity = Inr (Some text)"

definition some_context :: TaskContext where
  "some_context = \<lparr> tc_user_instruction = ''Test task'', tc_recent_events = [],
                    tc_current_todos = [], tc_completed_todos = [] \<rparr>"

text \<open>
  The reading of the specification under which an out-of-range confidence is clamped
  to the nearest bound of the unit interval.
\<close>

definition spec_clamped :: "real \<Rightarrow> real" where
  "spec_clamped c = max 0 (min 1 c)"

text \<open>An event with the given display text.\<close>

definition event_saying :: "string \<Rightarrow> ClaudeHistoryEvent" where
  "event_saying text =
     \<lparr> display = text, timestamp = 0, project = ''/test/project'',
       session_id = ''test-session'', pasted_contents = None \<rparr>"

text \<open>A model endpoint that cannot be reached, and the classifier on top of it.\<close>

definition unreachable :: "TaskContext \<Rightarrow> string \<Rightarrow> exn + string option" where
  "unreachable context activity = Inl (Exn OtherError ''Connection error.'')"

definition offline_llm :: "TaskContext \<Rightarrow> string \<Rightarrow> AnalysisResult" where
  "offline_llm = analyze_task_adherence (table_lib []) unreachable"

text \<open>A run of four events whose last one defers work to the future.\<close>

definition deferring_run :: "ClaudeHistoryEvent list" where
  "deferring_run =
     [ event_saying ''Read the config'',
       event_saying ''Edit the parser'',
       event_saying ''Run the tests'',
       event_saying (''I'' @ [CHR 0x27] @ ''ll monitor the build'') ]"

definition tracking_analyzer :: TaskAnalyzer where
  "tracking_analyzer = set_user_instruction (TaskAnalyzer_init 10 0.7) ''Test task''"

text \<open>
  The reading of the specification of \<open>extract\<close>: the first line classified as a
  question, else the whole text when it contains a question mark, else nothing.
\<close>

definition spec_extract :: "string \<Rightarrow> string option" where
  "spec_extract text =
     (case find is_question (py_split [CHR 0x0A] text) of
        Some line \<Rightarrow> Some line
      | None \<Rightarrow> if CHR ''?'' \<in> set text then Some text else None)"

text \<open>A rhetorical line followed by a question to the user.\<close>

definition musing_then_asking :: string where
  "musing_then_asking = ''What is this?'' @ [CHR 0x0A] @ ''Should I proceed?''"

text \<open>
  History lines: a well-formed entry, the JSON number 42 (valid JSON, not an object) and
  a line that is not JSON; the library decodes the first two.
\<close>

definition entry_line :: string where
  \<open>entry_line = ''{"display": "Run the tests", "timestamp": 1700000000000, "project": "/p", "sessionId": "s1"}''\<close>

definition entry_doc :: json where
  "entry_doc =
     JObj [(''display'', JStr ''Run the tests''), (''timestamp'', JNum 1700000000000),
           (''project'', JStr ''/p''), (''sessionId'', JStr ''s1'')]"

definition entry_event :: ClaudeHistoryEvent where
  "entry_event =
     \<lparr> display = ''Run the tests'', timestamp = 1700000000, project = ''/p'',
       session_id = ''s1'', pasted_contents = None \<rparr>"

definition history_lib :: pylib where
  "history_lib = table_lib [(''42'', JNum 42), (entry_line, entry_doc)]"

definition number_then_entry :: string where
  "number_then_entry = ''42'' @ [CHR 0x0A] @ entry_line @ [CHR 0x0A]"

definition garbage_then_entry :: string where
  "garbage_then_entry = ''not json'' @ [CHR 0x0A] @ entry_line @ [CHR 0x0A]"

text \<open>An answer attempt below the confidence threshold, with a suggestion.\<close>

definition unsure_attempt :: AnswerAttempt where
  "unsure_attempt =
     \<lparr> answer = ''Use PostgreSQL'', answer_confidence = 0.4,
       answer_reasoning = ''The task mentions SQL'', should_ask_user = True \<rparr>"

section \<open>Severity mapping\<close>

text \<open>
  C4: severity is a total function of the judgment's confidence alone: confidence
  at least 0.9 gives critical, at least 0.8 high, at least 0.7 medium, anything else low;
  the boundary values 0.7, 0.8 and 0.9 fall into the higher band.
\<close>

theorem determine_severity_bands:
  "(0.9 \<le> confidence a \<longrightarrow> determine_severity a = Critical)
   \<and> (0.8 \<le> confidence a \<and> confidence a < 0.9 \<longrightarrow> determine_severity a = High)
   \<and> (0.7 \<le> confidence a \<and> confidence a < 0.8 \<longrightarrow> determine_severity a = Medium)
   \<and> (confidence a < 0.7 \<longrightarrow> determine_severity a = Low)
   \<and> (confidence a = confidence b \<longrightarrow> determine_severity a = determine_severity b)"
  by (simp add: determine_severity_def)

theorem determine_severity_bands_witness:
  "determine_severity \<lparr> is_on_task = False, confidence = 0.9, reasoning = ''r'',
                        detected_issues = [], recommended_action = None \<rparr> = Critical
   \<and> determine_severity \<lparr> is_on_task = False, confidence = 0.8, reasoning = ''r'',
                        detected_issues = [], recommended_action = None \<rparr> = High
   \<and> determine_severity \<lparr> is_on_task = False, confidence = 0.7, reasoning = ''r'',
                        detected_issues = [], recommended_action = None \<rparr> = Medium
   \<and> determine_severity \<lparr> is_on_task = False, confidence = 0.69, reasoning = ''r'',
                        detected_issues = [], recommended_action = None \<rparr> = Low"
  using
    determine_severity_bands [of "\<lparr> is_on_task = False, confidence = 0.9, reasoning = ''r'',
                        detected_issues = [], recommended_action = None \<rparr>"]
    determine_severity_bands [of "\<lparr> is_on_task = False, confidence = 0.8, reasoning = ''r'',
                        detected_issues = [], recommended_action = None \<rparr>"]
    determine_severity_bands [of "\<lparr> is_on_task = False, confidence = 0.7, reasoning = ''r'',
                        detected_issues = [], recommended_action = None \<rparr>"]
    determine_severity_bands [of "\<lparr> is_on_task = False, confidence = 0.69, reasoning = ''r'',
                        detected_issues = [], recommended_action = None \<rparr>"]
  by simp

section \<open>The intervention decision\<close>

text \<open>
  C1: for every judgment and forced flag a decision is produced if and only if the
  judgment is off-task with confidence at least the intervention threshold, or the flag
  is set.  In particular an off-task judgment with confidence exactly at the threshold
  intervenes, an off-task judgment below the threshold does not intervene unless forced,
  and an on-task judgment intervenes only when forced.
\<close>

theorem evaluate_iff:
  "(evaluate threshold a forced \<noteq> None)
     = ((\<not> is_on_task a \<and> threshold \<le> confidence a) \<or> forced)
   \<and> (\<not> is_on_task a \<and> confidence a = threshold \<longrightarrow> evaluate threshold a False \<noteq> None)
   \<and> (\<not> is_on_task a \<and> confidence a < threshold \<longrightarrow> evaluate threshold a False = None)
   \<and> (is_on_task a \<longrightarrow> evaluate threshold a False = None)
   \<and> evaluate threshold a True \<noteq> None"
  by (simp add: evaluate_def)

theorem evaluate_iff_witness:
  "evaluate 0.7 \<lparr> is_on_task = False, confidence = 0.7, reasoning = ''r'',
                  detected_issues = [], recommended_action = None \<rparr> False \<noteq> None
   \<and> evaluate 0.7 \<lparr> is_on_task = False, confidence = 0.69, reasoning = ''r'',
                  detected_issues = [], recommended_action = None \<rparr> False = None
   \<and> evaluate 0.7 \<lparr> is_on_task = True, confidence = 1, reasoning = ''r'',
                  detected_issues = [], recommended_action = None \<rparr> False = None"
  using
    evaluate_iff [of "0.7" "\<lparr> is_on_task = False, confidence = 0.7, reasoning = ''r'',
                  detected_issues = [], recommended_action = None \<rparr>" False]
    evaluate_iff [of "0.7" "\<lparr> is_on_task = False, confidence = 0.69, reasoning = ''r'',
                  detected_issues = [], recommended_action = None \<rparr>" False]
    evaluate_iff [of "0.7" "\<lparr> is_on_task = True, confidence = 1, reasoning = ''r'',
                  detected_issues = [], recommended_action = None \<rparr>" False]
  by simp

text \<open>
  The decision inside \<open>_trigger_analysis\<close>: whenever the classifier was called, the
  callback receives a decision exactly under the condition above.
\<close>

lemma trigger_analysis_decision:
  assumes "trigger_analysis llm s activity forced = Some c"
  shows "(call_decision c \<noteq> None)
           = ((\<not> is_on_task (call_analysis c) \<and> intervention_threshold s \<le> confidence (call_analysis c))
              \<or> forced)"
  using assms
  by (auto simp: trigger_analysis_def evaluate_def Let_def split: option.splits if_splits)

section \<open>The classifier boundary fails open\<close>

lemma AnalysisResult_init_range:
  "AnalysisResult_init lib data = Inr a \<Longrightarrow> 0 \<le> confidence a \<and> confidence a \<le> 1"
  by (auto simp: AnalysisResult_init_def in_unit_interval_def Option.bind_eq_Some_conv
           split: json.splits option.splits if_splits)

lemma decode_analysis_range:
  "decode_analysis lib content = Inr a \<Longrightarrow> 0 \<le> confidence a \<and> confidence a \<le> 1"
  by (auto simp: decode_analysis_def Let_def dest: AnalysisResult_init_range
           split: option.splits sum.splits if_splits)

lemma AnalysisResult_init_out_of_range:
  assumes "map_of kv ''confidence'' = Some j" and "as_float lib j = Some c" and "c < 0 \<or> 1 < c"
  shows "AnalysisResult_init lib (JObj kv) = Inl (Exn ValidationError (validation_error_str lib kv))"
  using assms
  by (auto simp: AnalysisResult_init_def required_def in_unit_interval_def
           split: option.splits)

lemma decode_analysis_unfenced:
  assumes "\<not> py_startswith ''```'' (py_strip raw)"
  shows "decode_analysis lib (Some raw) =
           (case json_loads lib (py_strip (py_strip raw)) of
              Inl e \<Rightarrow> Inl e
            | Inr data \<Rightarrow> AnalysisResult_init lib data)"
proof -
  have "\<not> py_startswith ''```json'' (py_strip raw)"
    using assms by (auto simp: py_startswith_def dest: arg_cong [where f = "take 3"])
  with assms show ?thesis
    by (simp add: decode_analysis_def Let_def)
qed

lemma failed_analysis_simps:
  "is_on_task (failed_analysis p e)"
  "confidence (failed_analysis p e) = 0"
  "detected_issues (failed_analysis p e) = []"
  "evaluate threshold (failed_analysis p e) False = None"
  by (simp_all add: failed_analysis_def evaluate_def)

text \<open>
  C2 (as amended): for every response of the classifier the resulting judgment has a
  confidence within [0,1], whatever the upstream value: an upstream confidence outside
  [0,1] is not clamped to the nearest bound but rejected as a parse failure.  On a
  communication failure and on every parse failure (no text, an exception while
  unwrapping or decoding, a document that is not an object, a field that fails
  validation) the judgment is the default with on_task = true and confidence = 0.0.
  Such a judgment never meets the intervention condition, so the response does not force
  an intervention: evaluated without the force flag it yields no decision.  The caller
  always gets a judgment back, never an error.
\<close>

theorem analysis_fail_open:
  "0 \<le> confidence (analyze_task_adherence lib chat ctx act)
   \<and> confidence (analyze_task_adherence lib chat ctx act) \<le> 1
   \<and> (\<forall>e. chat ctx act = Inl e \<longrightarrow>
          analyze_task_adherence lib chat ctx act = failed_analysis ''Analysis failed: '' e)
   \<and> (\<forall>content e. chat ctx act = Inr content \<and> decode_analysis lib content = Inl e \<longrightarrow>
          analyze_task_adherence lib chat ctx act = failed_analysis ''Failed to parse response: '' e)
   \<and> (\<forall>raw kv j c.
          chat ctx act = Inr (Some raw) \<and> \<not> py_startswith ''```'' (py_strip raw)
          \<and> json_loads lib (py_strip (py_strip raw)) = Inr (JObj kv)
          \<and> map_of kv ''confidence'' = Some j \<and> as_float lib j = Some c \<and> (c < 0 \<or> 1 < c) \<longrightarrow>
          analyze_task_adherence lib chat ctx act
            = failed_analysis ''Failed to parse response: ''
                (Exn ValidationError (validation_error_str lib kv)))
   \<and> is_on_task (failed_analysis prefix ex)
   \<and> confidence (failed_analysis prefix ex) = 0
   \<and> evaluate threshold (failed_analysis prefix ex) False = None"
proof -
  let ?R = "analyze_task_adherence lib chat ctx act"
  have range: "0 \<le> confidence ?R \<and> confidence ?R \<le> 1"
  proof (cases "chat ctx act")
    case (Inl e)
    then show ?thesis
      by (simp add: analyze_task_adherence_def failed_analysis_def)
  next
    case (Inr content)
    show ?thesis
    proof (cases "decode_analysis lib content")
      case (Inl e)
      with Inr show ?thesis
        by (simp add: analyze_task_adherence_def parse_analysis_response_def failed_analysis_def)
    next
      case (Inr a)
      with \<open>chat ctx act = Inr content\<close> have "?R = a"
        by (simp add: analyze_task_adherence_def parse_analysis_response_def)
      with decode_analysis_range [OF Inr] show ?thesis by simp
    qed
  qed
  have comm: "\<forall>e. chat ctx act = Inl e \<longrightarrow> ?R = failed_analysis ''Analysis failed: '' e"
    by (simp add: analyze_task_adherence_def)
  have parse: "\<forall>content e. chat ctx act = Inr content \<and> decode_analysis lib content = Inl e \<longrightarrow>
                 ?R = failed_analysis ''Failed to parse response: '' e"
    by (simp add: analyze_task_adherence_def parse_analysis_response_def)
  have out: "\<forall>raw kv j c.
          chat ctx act = Inr (Some raw) \<and> \<not> py_startswith ''```'' (py_strip raw)
          \<and> json_loads lib (py_strip (py_strip raw)) = Inr (JObj kv)
          \<and> map_of kv ''confidence'' = Some j \<and> as_float lib j = Some c \<and> (c < 0 \<or> 1 < c) \<longrightarrow>
          ?R = failed_analysis ''Failed to parse response: ''
                (Exn ValidationError (validation_error_str lib kv))"
  proof (intro allI impI)
    fix raw kv j c
    assume h: "chat ctx act = Inr (Some raw) \<and> \<not> py_startswith ''```'' (py_strip raw)
          \<and> json_loads lib (py_strip (py_strip raw)) = Inr (JObj kv)
          \<and> map_of kv ''confidence'' = Some j \<and> as_float lib j = Some c \<and> (c < 0 \<or> 1 < c)"
    then have "AnalysisResult_init lib (JObj kv)
                 = Inl (Exn ValidationError (validation_error_str lib kv))"
      by (intro AnalysisResult_init_out_of_range [of kv j lib c]) simp_all
    with h have "decode_analysis lib (Some raw)
                   = Inl (Exn ValidationError (validation_error_str lib kv))"
      by (simp add: decode_analysis_unfenced)
    with h show "?R = failed_analysis ''Failed to parse response: ''
                (Exn ValidationError (validation_error_str lib kv))"
      by (simp add: analyze_task_adherence_def parse_analysis_response_def)
  qed
  from range comm parse out show ?thesis
    by (simp only: failed_analysis_simps simp_thms)
qed

theorem analysis_fail_open_witness:
  "analyze_task_adherence overconfident_lib (replying overconfident_reply) some_context ''activity''
     = failed_analysis ''Failed to parse response: '' (Exn ValidationError ''validation error'')
   \<and> confidence (analyze_task_adherence overconfident_lib (replying overconfident_reply)
                   some_context ''activity'') \<le> 1"
proof -
  note T = analysis_fail_open
             [of overconfident_lib "replying overconfident_reply" some_context "''activity''"]
  have strip: "py_strip overconfident_reply = overconfident_reply"
    by (simp add: py_strip_def py_isspace_def overconfident_reply_def)
  have prem: "replying overconfident_reply some_context ''activity'' = Inr (Some overconfident_reply)
      \<and> \<not> py_startswith ''```'' (py_strip overconfident_reply)
      \<and> json_loads overconfident_lib (py_strip (py_strip overconfident_reply))
          = Inr (JObj [(''is_on_task'', JBool False), (''confidence'', JNum 1.5),
                       (''reasoning'', JStr ''x'')])
      \<and> map_of [(''is_on_task'', JBool False), (''confidence'', JNum 1.5),
                 (''reasoning'', JStr ''x'')] ''confidence'' = Some (JNum 1.5)
      \<and> as_float overconfident_lib (JNum 1.5) = Some 1.5 \<and> ((1.5::real) < 0 \<or> 1 < (1.5::real))"
    unfolding strip
    by (simp add: replying_def py_startswith_def overconfident_lib_def table_lib_def
          overconfident_doc_def)
       (simp add: overconfident_reply_def)
  have msg: "validation_error_str overconfident_lib kv = ''validation error''" for kv
    by (simp add: overconfident_lib_def table_lib_def)
  note out = T [THEN conjunct2, THEN conjunct2, THEN conjunct2, THEN conjunct2, THEN conjunct1]
  from out [rule_format, OF prem] msg
  have first: "analyze_task_adherence overconfident_lib (replying overconfident_reply) some_context
                 ''activity''
     = failed_analysis ''Failed to parse response: '' (Exn ValidationError ''validation error'')"
    by simp
  note second = T [THEN conjunct2, THEN conjunct1]
  from first second show ?thesis by (rule conjI)
qed

theorem clamping_counterexample:
  "Option.bind (case overconfident_doc of JObj kv \<Rightarrow> map_of kv ''confidence'' | _ \<Rightarrow> None)
               (as_float overconfident_lib) = Some 1.5
   \<and> json_loads overconfident_lib overconfident_reply = Inr overconfident_doc
   \<and> spec_clamped 1.5 = 1
   \<and> confidence (parse_analysis_response overconfident_lib (Some overconfident_reply)) = 0
   \<and> is_on_task (parse_analysis_response overconfident_lib (Some overconfident_reply))
   \<and> confidence (parse_analysis_response overconfident_lib (Some overconfident_reply))
       \<noteq> spec_clamped 1.5"
  by (simp add: parse_analysis_response_def decode_analysis_def overconfident_lib_def table_lib_def
        overconfident_reply_def overconfident_doc_def spec_clamped_def
        py_strip_def py_isspace_def py_startswith_def AnalysisResult_init_def required_def
        defaulted_def in_unit_interval_def failed_analysis_def nullable_def)

section \<open>Runs of the analyzer\<close>

lemma process_event_fields:
  "recent_events (fst (process_event llm s e))
     = deque_append (context_window_size s) (recent_events s) e"
  "context_window_size (fst (process_event llm s e)) = context_window_size s"
  "event_count (fst (process_event llm s e)) = event_count s + 1"
  "check_frequency (fst (process_event llm s e)) = check_frequency s"
  "intervention_threshold (fst (process_event llm s e)) = intervention_threshold s"
  "user_instruction (fst (process_event llm s e))
     = (if py_not (user_instruction s) then Some (display e) else user_instruction s)"
  by (simp_all add: process_event_def Let_def)

lemma process_events_snoc:
  "process_events llm s (es @ [e])
     = (fst (process_event llm (fst (process_events llm s es)) e),
        snd (process_events llm s es) @ [snd (process_event llm (fst (process_events llm s es)) e)])"
  by (induction es arbitrary: s) (simp_all add: split_beta Let_def)

lemma process_events_length:
  "length (snd (process_events llm s es)) = length es"
  by (induction es arbitrary: s) (simp_all add: split_beta Let_def)

lemma process_events_fields:
  "context_window_size (fst (process_events llm s es)) = context_window_size s"
  "event_count (fst (process_events llm s es)) = event_count s + length es"
  "check_frequency (fst (process_events llm s es)) = check_frequency s"
  by (induction es arbitrary: s) (simp_all add: split_beta Let_def process_event_fields)

lemma deque_append_window:
  "deque_append W (drop (length h - W) h) x = drop (length (h @ [x]) - W) (h @ [x])"
proof (cases "length h < W")
  case True
  then show ?thesis by (simp add: deque_append_def Let_def)
next
  case False
  show ?thesis
  proof (cases W)
    case 0
    then show ?thesis by (simp add: deque_append_def Let_def)
  next
    case (Suc m)
    define d where "d = length h - W"
    with False Suc have d: "d < length h" "Suc (length h) - W = Suc d"
      by simp_all
    then have "drop d h = h ! d # drop (Suc d) h"
      by (simp add: Cons_nth_drop_Suc)
    moreover have "length (drop d h) = W"
      using False d_def by simp
    ultimately show ?thesis
      using d by (simp add: deque_append_def Let_def d_def [symmetric])
  qed
qed

lemma process_events_window:
  assumes "recent_events s = drop (length h - context_window_size s) h"
  shows "recent_events (fst (process_events llm s es))
           = drop (length (h @ es) - context_window_size s) (h @ es)"
  using assms
proof (induction es arbitrary: s h)
  case Nil
  then show ?case by simp
next
  case (Cons e es)
  let ?s1 = "fst (process_event llm s e)"
  have "recent_events ?s1 = drop (length (h @ [e]) - context_window_size ?s1) (h @ [e])"
    using Cons.prems by (simp add: process_event_fields deque_append_window)
  from Cons.IH [OF this] show ?case
    by (simp add: split_beta Let_def process_event_fields)
qed

lemma process_events_nth:
  assumes "k < length es"
  shows "snd (process_events llm s es) ! k
           = snd (process_event llm (fst (process_events llm s (take k es))) (es ! k))"
  using assms
proof (induction es arbitrary: s k)
  case Nil
  then show ?case by simp
next
  case (Cons e es)
  show ?case
  proof (cases k)
    case 0
    then show ?thesis by (simp add: split_beta Let_def)
  next
    case (Suc j)
    with Cons.prems have "j < length es" by simp
    from Cons.IH [OF this] Suc show ?thesis by (simp add: split_beta Let_def)
  qed
qed

lemma instruction_kept:
  assumes "\<not> py_not (user_instruction s)"
  shows "user_instruction (fst (process_events llm s es)) = user_instruction s"
  using assms
  by (induction es arbitrary: s) (simp_all add: split_beta Let_def process_event_fields)

lemma py_in_iff: "py_in p s = (\<exists>pre post. s = pre @ p @ post)"
proof (induction s)
  case Nil
  then show ?case by auto
next
  case (Cons c cs)
  have a: "py_startswith p (c # cs) = (\<exists>post. c # cs = p @ post)"
    unfolding py_startswith_def
    by (metis append_eq_conv_conj append_take_drop_id)
  show ?case
  proof
    assume "py_in p (c # cs)"
    then consider "py_startswith p (c # cs)" | "py_in p cs" by auto
    then show "\<exists>pre post. c # cs = pre @ p @ post"
    proof cases
      case 1
      with a obtain post where "c # cs = [] @ p @ post" by auto
      then show ?thesis by blast
    next
      case 2
      with Cons.IH obtain pre post where "cs = pre @ p @ post" by auto
      then have "c # cs = (c # pre) @ p @ post" by simp
      then show ?thesis by blast
    qed
  next
    assume "\<exists>pre post. c # cs = pre @ p @ post"
    then obtain pre post where h: "c # cs = pre @ p @ post" by auto
    show "py_in p (c # cs)"
    proof (cases pre)
      case Nil
      with h have "\<exists>post. c # cs = p @ post" by auto
      with a have "py_startswith p (c # cs)" by blast
      then show ?thesis by simp
    next
      case (Cons d ds)
      with h have "cs = ds @ p @ post" by simp
      with Cons.IH show ?thesis by auto
    qed
  qed
qed

section \<open>The context buffer\<close>

text \<open>
  C7: the context buffer never holds more than W events, and it always holds the last
  W events appended (all of them while fewer than W were appended) in their original
  order: after W + k appends these are the events left when the k oldest are dropped.
\<close>

theorem context_buffer_window:
  "length (recent_events (fst (process_events llm (TaskAnalyzer_init W thr) evs))) \<le> W
   \<and> recent_events (fst (process_events llm (TaskAnalyzer_init W thr) evs))
       = drop (length evs - W) evs
   \<and> (length evs = W + k \<longrightarrow>
        recent_events (fst (process_events llm (TaskAnalyzer_init W thr) evs)) = drop k evs
        \<and> length (recent_events (fst (process_events llm (TaskAnalyzer_init W thr) evs))) = W)"
proof -
  have "recent_events (TaskAnalyzer_init W thr)
          = drop (length ([] :: ClaudeHistoryEvent list) - context_window_size (TaskAnalyzer_init W thr)) []"
    by (simp add: TaskAnalyzer_init_def)
  from process_events_window [OF this, of llm evs]
  have "recent_events (fst (process_events llm (TaskAnalyzer_init W thr) evs))
          = drop (length evs - W) evs"
    by (simp add: TaskAnalyzer_init_def)
  then show ?thesis by auto
qed

theorem context_buffer_window_witness:
  "recent_events (fst (process_events offline_llm (TaskAnalyzer_init 2 0.7)
       [event_saying ''one'', event_saying ''two'', event_saying ''three'']))
     = [event_saying ''two'', event_saying ''three'']"
  using context_buffer_window [of offline_llm 2 "0.7"
       "[event_saying ''one'', event_saying ''two'', event_saying ''three'']" 1]
  by simp

section \<open>Inference of the task instruction\<close>

lemma no_instruction_kept:
  assumes "py_not (user_instruction s)" and "\<forall>x\<in>set pre. display x = []"
  shows "py_not (user_instruction (fst (process_events llm s pre)))"
  using assms
  by (induction pre arbitrary: s)
     (simp_all add: split_beta Let_def process_event_fields py_not_def)

text \<open>
  C9 (as amended): whenever an event is processed while no instruction is known
  (none set, or an empty one), the instruction becomes that event's display text; once a
  non-empty instruction is known, event processing never overwrites it.  So the
  instruction is inferred from the first event unless its display text is empty, and in
  general from the first event whose display text is not empty.
\<close>

theorem instruction_inference:
  "(py_not (user_instruction s) \<longrightarrow>
      user_instruction (fst (process_event llm s e)) = Some (display e))
   \<and> (\<not> py_not (user_instruction s) \<longrightarrow>
      user_instruction (fst (process_events llm s evs)) = user_instruction s)
   \<and> (display e \<noteq> [] \<longrightarrow>
      user_instruction (fst (process_events llm (TaskAnalyzer_init W thr) (e # evs)))
        = Some (display e))
   \<and> ((\<forall>x\<in>set pre. display x = []) \<and> display e \<noteq> [] \<longrightarrow>
      user_instruction (fst (process_events llm (TaskAnalyzer_init W thr) (pre @ e # evs)))
        = Some (display e))"
proof -
  have general: "user_instruction (fst (process_events llm s0 (pre' @ e # evs))) = Some (display e)"
    if "py_not (user_instruction s0)" and "\<forall>x\<in>set pre'. display x = []" and "display e \<noteq> []"
    for s0 pre'
  proof -
    let ?s1 = "fst (process_events llm s0 pre')"
    let ?s2 = "fst (process_event llm ?s1 e)"
    have "py_not (user_instruction ?s1)"
      using that by (intro no_instruction_kept) simp_all
    then have adopted: "user_instruction ?s2 = Some (display e)"
      by (simp add: process_event_fields)
    with that have "\<not> py_not (user_instruction ?s2)"
      by (simp add: py_not_def)
    from instruction_kept [OF this, of llm evs] adopted
    have "user_instruction (fst (process_events llm ?s2 evs)) = Some (display e)"
      by simp
    moreover have "fst (process_events llm s0 (pre' @ e # evs)) = fst (process_events llm ?s2 evs)"
      by (induction pre' arbitrary: s0) (simp_all add: split_beta Let_def)
    ultimately show ?thesis by simp
  qed
  have init: "py_not (user_instruction (TaskAnalyzer_init W thr))"
    by (simp add: TaskAnalyzer_init_def py_not_def)
  have "display e \<noteq> [] \<longrightarrow>
      user_instruction (fst (process_events llm (TaskAnalyzer_init W thr) (e # evs)))
        = Some (display e)"
    using general [OF init, of "[]"] by simp
  moreover have "(\<forall>x\<in>set pre. display x = []) \<and> display e \<noteq> [] \<longrightarrow>
      user_instruction (fst (process_events llm (TaskAnalyzer_init W thr) (pre @ e # evs)))
        = Some (display e)"
    using general [OF init, of pre] by blast
  ultimately show ?thesis
    by (simp add: process_event_fields instruction_kept)
qed

theorem instruction_inference_witness:
  "user_instruction (fst (process_events offline_llm (TaskAnalyzer_init 10 0.7)
       ([event_saying []] @ event_saying ''Fix the login bug'' # [event_saying ''Run the tests''])))
     = Some ''Fix the login bug''
   \<and> user_instruction (fst (process_events offline_llm
         (set_user_instruction (TaskAnalyzer_init 10 0.7) ''Refactor the parser'')
         [event_saying ''Run the tests'']))
     = Some ''Refactor the parser''"
proof -
  have a: "(\<forall>x\<in>set [event_saying []]. display x = []) \<and> display (event_saying ''Fix the login bug'') \<noteq> []"
    by (simp add: event_saying_def)
  have b: "\<not> py_not (user_instruction (set_user_instruction (TaskAnalyzer_init 10 0.7) ''Refactor the parser''))"
    by (simp add: set_user_instruction_def py_not_def)
  have c: "display (event_saying ''Fix the login bug'') = ''Fix the login bug''"
    by (simp add: event_saying_def)
  have d: "user_instruction (set_user_instruction (TaskAnalyzer_init 10 0.7) ''Refactor the parser'')
             = Some ''Refactor the parser''"
    by (simp add: set_user_instruction_def)
  note T1 = instruction_inference [where llm = offline_llm
              and e = "event_saying ''Fix the login bug''" and W = 10 and thr = "0.7"
              and evs = "[event_saying ''Run the tests'']" and pre = "[event_saying []]"]
  note T2 = instruction_inference
              [where s = "set_user_instruction (TaskAnalyzer_init 10 0.7) ''Refactor the parser''"
                 and llm = offline_llm and evs = "[event_saying ''Run the tests'']"]
  from T1 [THEN conjunct2, THEN conjunct2, THEN conjunct2, rule_format, OF a]
       T2 [THEN conjunct2, THEN conjunct1, rule_format, OF b]
  show ?thesis
    unfolding c d by (rule conjI)
qed

theorem first_event_only_counterexample:
  "user_instruction (fst (process_events offline_llm (TaskAnalyzer_init 10 0.7)
       [event_saying []])) = Some []
   \<and> user_instruction (fst (process_events offline_llm (TaskAnalyzer_init 10 0.7)
       [event_saying [], event_saying ''Fix the login bug''])) = Some ''Fix the login bug''
   \<and> user_instruction (fst (process_events offline_llm (TaskAnalyzer_init 10 0.7)
       [event_saying [], event_saying ''Fix the login bug'']))
      \<noteq> Some (display (hd [event_saying [], event_saying ''Fix the login bug'']))"
  by (simp add: split_beta Let_def process_event_fields TaskAnalyzer_init_def py_not_def
        event_saying_def)

section \<open>The trigger policy\<close>

lemma trigger_analysis_silent:
  "(trigger_analysis llm s activity forced = None) = py_not (user_instruction s)"
  by (simp add: trigger_analysis_def py_not_def Let_def split: option.splits)

lemma trigger_analysis_call:
  "trigger_analysis llm s activity forced = Some c \<Longrightarrow>
     call_force c = forced \<and> call_activity c = activity"
  by (auto simp: trigger_analysis_def Let_def split: option.splits if_splits)

lemma process_event_silent:
  "(snd (process_event llm s e) = None)
     = (py_not (user_instruction (fst (process_event llm s e)))
        \<or> (\<not> is_suspicious_activity (display e)
           \<and> (event_count s + 1) mod check_frequency s \<noteq> 0))"
  by (simp add: process_event_def Let_def trigger_analysis_silent)

lemma process_event_call:
  "snd (process_event llm s e) = Some c \<Longrightarrow>
     call_force c = is_suspicious_activity (display e) \<and> call_activity c = display e"
  by (auto simp: process_event_def Let_def dest: trigger_analysis_call split: if_splits)

lemma process_events_take_Suc:
  assumes "k < length es"
  shows "fst (process_events llm s (take (Suc k) es))
           = fst (process_event llm (fst (process_events llm s (take k es))) (es ! k))"
  using assms by (simp add: take_Suc_conv_app_nth process_events_snoc)

text \<open>
  C3: in a run of events over an analyzer that starts with its counter at 0 and cadence
  3, the classifier is invoked at position \<open>k + 1\<close> exactly when a task instruction is
  known there and either the event's display text contains a suspicious phrase or the
  position is a multiple of 3.  A call caused by a suspicious phrase carries the forced
  flag, a cadence call does not; suspicious means that the lower-cased display text
  contains one of the phrases as a substring.  Hence, with an instruction known and no
  suspicious phrasing, the calls are exactly those at positions 3, 6, 9, ...; a
  suspicious phrase triggers at any position, forced; and nothing triggers while no
  instruction is known.
\<close>

theorem trigger_policy:
  assumes "event_count s0 = 0" and "check_frequency s0 = 3" and "k < length evs"
  shows
    "((snd (process_events llm s0 evs) ! k \<noteq> None)
        = (\<not> py_not (user_instruction (fst (process_events llm s0 (take (Suc k) evs))))
           \<and> (is_suspicious_activity (display (evs ! k)) \<or> Suc k mod 3 = 0)))
     \<and> (\<forall>c. snd (process_events llm s0 evs) ! k = Some c \<longrightarrow>
           call_force c = is_suspicious_activity (display (evs ! k))
           \<and> call_activity c = display (evs ! k))
     \<and> (is_suspicious_activity (display (evs ! k))
          = (\<exists>p\<in>set suspicious_patterns. \<exists>pre post. py_lower (display (evs ! k)) = pre @ p @ post))
     \<and> (\<not> py_not (user_instruction s0) \<and> \<not> is_suspicious_activity (display (evs ! k)) \<longrightarrow>
           (snd (process_events llm s0 evs) ! k \<noteq> None) = (Suc k mod 3 = 0))
     \<and> (\<not> py_not (user_instruction s0) \<and> is_suspicious_activity (display (evs ! k)) \<longrightarrow>
           (\<exists>c. snd (process_events llm s0 evs) ! k = Some c \<and> call_force c))
     \<and> (py_not (user_instruction (fst (process_events llm s0 (take (Suc k) evs)))) \<longrightarrow>
           snd (process_events llm s0 evs) ! k = None)"
proof -
  let ?sk = "fst (process_events llm s0 (take k evs))"
  let ?out = "snd (process_events llm s0 evs) ! k"
  let ?e = "evs ! k"
  have out: "?out = snd (process_event llm ?sk ?e)"
    using assms(3) by (rule process_events_nth)
  have count: "event_count ?sk = k" "check_frequency ?sk = 3"
    using assms by (simp_all add: process_events_fields)
  have after: "fst (process_events llm s0 (take (Suc k) evs)) = fst (process_event llm ?sk ?e)"
    using assms(3) by (rule process_events_take_Suc)
  have silent_eq: "(?out = None)
        = (py_not (user_instruction (fst (process_events llm s0 (take (Suc k) evs))))
           \<or> (\<not> is_suspicious_activity (display ?e) \<and> Suc k mod 3 \<noteq> 0))"
    unfolding out after by (simp add: process_event_silent count)
  from silent_eq have fires: "(?out \<noteq> None)
        = (\<not> py_not (user_instruction (fst (process_events llm s0 (take (Suc k) evs))))
           \<and> (is_suspicious_activity (display ?e) \<or> Suc k mod 3 = 0))"
    by (simp del: not_None_eq)
  have call: "\<forall>c. ?out = Some c \<longrightarrow>
           call_force c = is_suspicious_activity (display ?e) \<and> call_activity c = display ?e"
    unfolding out by (blast dest: process_event_call)
  have susp: "is_suspicious_activity (display ?e)
          = (\<exists>p\<in>set suspicious_patterns. \<exists>pre post. py_lower (display ?e) = pre @ p @ post)"
    by (simp add: is_suspicious_activity_def Let_def list_ex_iff py_in_iff)
  have known: "\<not> py_not (user_instruction (fst (process_events llm s0 (take (Suc k) evs))))"
    if "\<not> py_not (user_instruction s0)"
    using that by (simp add: instruction_kept)
  have cadence: "\<not> py_not (user_instruction s0) \<and> \<not> is_suspicious_activity (display ?e) \<longrightarrow>
           (?out \<noteq> None) = (Suc k mod 3 = 0)"
    using fires known by (simp del: not_None_eq)
  have forced: "\<not> py_not (user_instruction s0) \<and> is_suspicious_activity (display ?e) \<longrightarrow>
           (\<exists>c. ?out = Some c \<and> call_force c)"
  proof
    assume h: "\<not> py_not (user_instruction s0) \<and> is_suspicious_activity (display ?e)"
    with fires known have "?out \<noteq> None" by (simp del: not_None_eq)
    then obtain c where c: "?out = Some c" by auto
    with call h have "call_force c" by blast
    with c show "\<exists>c. ?out = Some c \<and> call_force c" by blast
  qed
  have silent: "py_not (user_instruction (fst (process_events llm s0 (take (Suc k) evs)))) \<longrightarrow>
           ?out = None"
    using silent_eq by simp
  from fires call susp cadence forced silent show ?thesis
    by (intro conjI)
qed

theorem trigger_policy_witness:
  "snd (process_events offline_llm tracking_analyzer deferring_run) ! 0 = None
   \<and> snd (process_events offline_llm tracking_analyzer deferring_run) ! 2 \<noteq> None
   \<and> (\<exists>c. snd (process_events offline_llm tracking_analyzer deferring_run) ! 3 = Some c
          \<and> call_force c)"
proof -
  have s0: "event_count tracking_analyzer = 0" "check_frequency tracking_analyzer = 3"
    "\<not> py_not (user_instruction tracking_analyzer)"
    by (simp_all add: tracking_analyzer_def set_user_instruction_def TaskAnalyzer_init_def
          py_not_def)
  have len: "0 < length deferring_run" "2 < length deferring_run" "3 < length deferring_run"
    by (simp_all add: deferring_run_def)
  have quiet: "\<not> is_suspicious_activity (display (deferring_run ! 0))"
    "\<not> is_suspicious_activity (display (deferring_run ! 2))"
    by code_simp+
  have loud: "is_suspicious_activity (display (deferring_run ! 3))"
    by code_simp
  note T0 = trigger_policy [OF s0(1) s0(2) len(1), of offline_llm]
  note T2 = trigger_policy [OF s0(1) s0(2) len(2), of offline_llm]
  note T3 = trigger_policy [OF s0(1) s0(2) len(3), of offline_llm]
  note cadence0 = T0 [THEN conjunct2, THEN conjunct2, THEN conjunct2, THEN conjunct1,
                      rule_format, OF conjI [OF s0(3) quiet(1)]]
  note cadence2 = T2 [THEN conjunct2, THEN conjunct2, THEN conjunct2, THEN conjunct1,
                      rule_format, OF conjI [OF s0(3) quiet(2)]]
  note forced3 = T3 [THEN conjunct2, THEN conjunct2, THEN conjunct2, THEN conjunct2,
                     THEN conjunct1, rule_format, OF conjI [OF s0(3) loud]]
  from cadence0
  have a: "snd (process_events offline_llm tracking_analyzer deferring_run) ! 0 = None"
    by simp
  from cadence2
  have b: "snd (process_events offline_llm tracking_analyzer deferring_run) ! 2 \<noteq> None"
    by (simp del: not_None_eq)
  note c = forced3
  from a b c show ?thesis by (intro conjI)
qed

section \<open>The question detector\<close>

lemma py_strip_blank:
  assumes "\<forall>c\<in>set s. py_isspace c"
  shows "py_strip s = []"
proof -
  from assms have blank: "dropWhile py_isspace s = []" by simp
  show ?thesis unfolding py_strip_def blank by simp
qed

text \<open>
  C10: for every empty or whitespace-only text, \<open>is_question\<close> is false and
  \<open>extract_question\<close> returns nothing.
\<close>

theorem blank_is_no_question:
  "(\<forall>c\<in>set text. py_isspace c) \<longrightarrow> \<not> is_question text \<and> extract_question text = None"
  by (simp add: is_question_def extract_question_def py_strip_blank)

theorem blank_is_no_question_witness:
  "\<not> is_question [] \<and> extract_question [] = None
   \<and> \<not> is_question [CHR '' '', CHR 0x09, CHR 0x0A, CHR '' '']
   \<and> extract_question [CHR '' '', CHR 0x09, CHR 0x0A, CHR '' ''] = None"
proof -
  have "\<forall>c\<in>set [CHR '' '', CHR 0x09, CHR 0x0A, CHR '' '']. py_isspace c"
    by (simp add: py_isspace_def)
  with blank_is_no_question [of "[CHR '' '', CHR 0x09, CHR 0x0A, CHR '' '']"]
       blank_is_no_question [of "[]"]
  show ?thesis by simp
qed

lemma hd_filter_find:
  "filter P xs \<noteq> [] \<Longrightarrow> find P xs = Some (hd (filter P xs))"
  by (induction xs) auto

lemma filter_empty_find:
  "filter P xs = [] \<Longrightarrow> find P xs = None"
  by (induction xs) (auto split: if_splits)

text \<open>
  C8 (as amended): \<open>extract_question\<close> returns nothing whenever the text as a whole
  is not classified as a question.  Otherwise it splits the text into lines, strips each
  line, and returns the first stripped line that is classified as a question on its own;
  if there is none, it returns the stripped text when the text contains a question mark,
  and nothing otherwise.
\<close>

theorem extract_question_gated:
  "(\<not> is_question text \<longrightarrow> extract_question text = None)
   \<and> (is_question text \<longrightarrow>
        extract_question text =
          (case find is_question (map py_strip (py_split [CHR 0x0A] text)) of
             Some q \<Rightarrow> Some q
           | None \<Rightarrow> if CHR ''?'' \<in> set text then Some (py_strip text) else None))
   \<and> (\<forall>q. extract_question text = Some q \<longrightarrow> is_question text)"
proof -
  let ?qs = "filter is_question (map py_strip (py_split [CHR 0x0A] text))"
  have "extract_question text =
          (case find is_question (map py_strip (py_split [CHR 0x0A] text)) of
             Some q \<Rightarrow> Some q
           | None \<Rightarrow> if CHR ''?'' \<in> set text then Some (py_strip text) else None)"
    if "is_question text"
  proof (cases "?qs = []")
    case True
    with that filter_empty_find [OF True] show ?thesis
      by (simp add: extract_question_def Let_def)
  next
    case False
    with that hd_filter_find [OF False] show ?thesis
      by (simp add: extract_question_def Let_def)
  qed
  moreover have "extract_question text = None" if "\<not> is_question text"
    using that by (simp add: extract_question_def)
  ultimately show ?thesis by (metis option.distinct(1))
qed

theorem extract_question_gated_witness:
  "extract_question ''Should I use PostgreSQL or MySQL?'' = Some ''Should I use PostgreSQL or MySQL?''
   \<and> extract_question ''  What is x?'' = Some ''What is x?''
   \<and> extract_question ''What is this variable for?'' = None"
proof -
  have q1: "is_question ''Should I use PostgreSQL or MySQL?''" by code_simp
  have q2: "is_question ''  What is x?''" by code_simp
  have q3: "\<not> is_question ''What is this variable for?''" by code_simp
  have f1: "(case find is_question (map py_strip (py_split [CHR 0x0A] ''Should I use PostgreSQL or MySQL?'')) of
             Some q \<Rightarrow> Some q
           | None \<Rightarrow> if CHR ''?'' \<in> set ''Should I use PostgreSQL or MySQL?''
                     then Some (py_strip ''Should I use PostgreSQL or MySQL?'') else None)
          = Some ''Should I use PostgreSQL or MySQL?''"
    by code_simp
  have f2: "(case find is_question (map py_strip (py_split [CHR 0x0A] ''  What is x?'')) of
             Some q \<Rightarrow> Some q
           | None \<Rightarrow> if CHR ''?'' \<in> set ''  What is x?''
                     then Some (py_strip ''  What is x?'') else None)
          = Some ''What is x?''"
    by code_simp
  note a = extract_question_gated [of "''Should I use PostgreSQL or MySQL?''",
             THEN conjunct2, THEN conjunct1, rule_format, OF q1]
  note b = extract_question_gated [of "''  What is x?''",
             THEN conjunct2, THEN conjunct1, rule_format, OF q2]
  note c = extract_question_gated [of "''What is this variable for?''",
             THEN conjunct1, rule_format, OF q3]
  from a f1 have a': "extract_question ''Should I use PostgreSQL or MySQL?''
                        = Some ''Should I use PostgreSQL or MySQL?''"
    by (rule trans)
  from b f2 have b': "extract_question ''  What is x?'' = Some ''What is x?''"
    by (rule trans)
  from a' b' c show ?thesis by (intro conjI)
qed

theorem extract_first_line_counterexample:
  "extract_question musing_then_asking = None
   \<and> spec_extract musing_then_asking = Some ''Should I proceed?''
   \<and> extract_question ''What is this variable for?'' = None
   \<and> spec_extract ''What is this variable for?'' = Some ''What is this variable for?''"
  by code_simp

section \<open>The history watcher\<close>

lemma read_new_entries_position:
  assumes "decode_utf8 lib (drop (last_position w) content) = Inr new_text"
  shows "last_position (fst (read_new_entries lib (Some content) w))
           = max (last_position w) (length content)"
  using assms by (simp add: read_new_entries_def Let_def)

lemma read_new_entries_undecodable:
  assumes "decode_utf8 lib (drop (last_position w) content) = Inl e"
  shows "read_new_entries lib (Some content) w = (w, [], Some e)"
  using assms by (simp add: read_new_entries_def)

lemma parse_lines_skips_ValueError:
  assumes "py_strip l \<noteq> []"
    and "(case json_loads lib (py_strip l) of
            Inl e \<Rightarrow> Inl e
          | Inr data \<Rightarrow> ClaudeHistoryEvent_init lib data) = Inl e"
    and "is_ValueError e"
  shows "parse_lines lib (l # ls) = parse_lines lib ls"
  using assms by (simp add: Let_def)

lemma parse_lines_stops_at_other_exception:
  assumes "py_strip l \<noteq> []"
    and "(case json_loads lib (py_strip l) of
            Inl e \<Rightarrow> Inl e
          | Inr data \<Rightarrow> ClaudeHistoryEvent_init lib data) = Inl e"
    and "\<not> is_ValueError e"
  shows "parse_lines lib (l # ls) = ([], Some e)"
  using assms by (simp add: Let_def)

lemma non_object_is_TypeError:
  assumes "\<forall>kv. data \<noteq> JObj kv"
  shows "ClaudeHistoryEvent_init lib data = Inl (Exn TypeError ''argument after ** must be a mapping'')"
  using assms by (cases data) (simp_all add: ClaudeHistoryEvent_init_def)

lemma non_object_line_stops_loop:
  assumes "py_strip l \<noteq> []" and "json_loads lib (py_strip l) = Inr data"
    and "\<forall>kv. data \<noteq> JObj kv"
  shows "parse_lines lib (l # ls)
           = ([], Some (Exn TypeError ''argument after ** must be a mapping''))"
  using assms by (simp add: Let_def non_object_is_TypeError)

text \<open>
  C5: lines that are not JSON and objects that fail validation are dropped and the read
  goes on, but not so a line that is valid JSON without being an object.  With the history file
  empty at start-up and the lines \<open>42\<close> and a well-formed entry appended, the read
  advances the offset to the end of the file and then leaves the loop with
  \<open>TypeError\<close> at the first line: the entry after it is not emitted, and the next
  read starts behind it and emits nothing.  After a line that is not JSON the same
  entry is emitted.
\<close>

theorem non_object_line_aborts_read:
  "read_new_entries history_lib (Some number_then_entry) (initialize_position (Some []))
     = (\<lparr> last_position = length number_then_entry \<rparr>, [],
        Some (Exn TypeError ''argument after ** must be a mapping''))
   \<and> read_new_entries history_lib (Some number_then_entry)
         \<lparr> last_position = length number_then_entry \<rparr>
     = (\<lparr> last_position = length number_then_entry \<rparr>, [], None)
   \<and> read_new_entries history_lib (Some garbage_then_entry) (initialize_position (Some []))
     = (\<lparr> last_position = length garbage_then_entry \<rparr>, [entry_event], None)"
  by code_simp

section \<open>Answers to questions\<close>

lemma ask_question_unavailable:
  "py_not (chat_id relay) \<Longrightarrow> snd (ask_question relay arrival) = None"
  "snd (ask_question relay None) = None"
  by (simp_all add: ask_question_def Let_def)

lemma fallback_answer_selected:
  assumes "should_ask_user attempt"
    and "telegram_relay = None \<or> arrival = None \<or> arrival = Some []
         \<or> (\<exists>relay. telegram_relay = Some relay \<and> py_not (chat_id relay))"
  shows "final_answer (handle_question telegram_relay arrival question attempt)
           = (if answer attempt \<noteq> [] then answer attempt else ''Please clarify your question.'')"
  using assms
  by (auto simp: handle_question_def ask_question_def answer_or_clarify_def Let_def
           split: option.splits prod.splits if_splits)

lemma written_text_fixed:
  "written_text (handle_question telegram_relay arrival question attempt)
     = py_join [CHR 0x0A]
         [''STOP - Hawtcher Intervention Required'', [],
          ''Issue detected: Answering Claude Code'' @ [CHR 0x27] @ ''s question'', [],
          ''Action required: Return to the original task immediately.'']"
  by (simp add: handle_question_def write_intervention_file_def Let_def split_beta)

text \<open>
  C6: without a reply (no relay, no chat id, or the wait timed out) the answer that
  \<open>_handle_question\<close> selects, returns and puts into the decision is the automatic
  answer if it is not empty and the clarification request otherwise.  The text written
  to the intervention file, however, is built from the decision's analysis alone and
  never contains the answer.
\<close>

theorem answer_not_written:
  "final_answer (handle_question None None ''Should I use PostgreSQL or MySQL?'' unsure_attempt)
     = ''Use PostgreSQL''
   \<and> intervention_message
        (sent_decision (handle_question None None ''Should I use PostgreSQL or MySQL?'' unsure_attempt))
     = ''Answer to your question:'' @ [CHR 0x0A] @ ''Use PostgreSQL''
   \<and> written_text (handle_question None None ''Should I use PostgreSQL or MySQL?'' unsure_attempt)
     = ''STOP - Hawtcher Intervention Required'' @ [CHR 0x0A, CHR 0x0A]
       @ ''Issue detected: Answering Claude Code'' @ [CHR 0x27] @ ''s question'' @ [CHR 0x0A, CHR 0x0A]
       @ ''Action required: Return to the original task immediately.''
   \<and> \<not> py_in ''Use PostgreSQL''
        (written_text (handle_question None None ''Should I use PostgreSQL or MySQL?'' unsure_attempt))"
  by code_simp

end
